theory Spec2Isabelle
  imports Complex_Main "HOL-Library.Sublist"
begin

section \<open>Python values and the operations the code applies to them\<close>

text \<open>
  The structured document is what \<^verbatim>\<open>json.loads\<close> returns: \<^verbatim>\<open>None\<close>, a bool, an int, a
  float, a str, a list or a dict with str keys. A dict is an association list in insertion
  order; a Python dict has no repeated key, so the lists that stand for dicts have distinct
  keys. Of a float inside the document only its truth value is ever observed; it is a real
  number here, and an infinity or NaN, which are truthy, behave as any number but zero.
\<close>

datatype py_error =
  TypeError | AttributeError | KeyError | ValueError | ZeroDivisionError | OverflowError

datatype json =
    JNull
  | JBool bool
  | JInt int
  | JFloat real
  | JStr string
  | JList "json list"
  | JDict "(string \<times> json) list"

text \<open>Truth value of an object, as \<^verbatim>\<open>if x:\<close> and \<^verbatim>\<open>not x\<close> test it.\<close>

fun truthy :: "json \<Rightarrow> bool" where
  "truthy JNull = False"
| "truthy (JBool b) = b"
| "truthy (JInt i) = (i \<noteq> 0)"
| "truthy (JFloat r) = (r \<noteq> 0)"
| "truthy (JStr s) = (s \<noteq> [])"
| "truthy (JList xs) = (xs \<noteq> [])"
| "truthy (JDict kvs) = (kvs \<noteq> [])"

text \<open>
  \<^verbatim>\<open>key in obj\<close> for a str key: membership among the keys of a dict, among the elements
  of a list, substring test on a str, and TypeError on everything else.
\<close>

fun py_contains :: "string \<Rightarrow> json \<Rightarrow> py_error + bool" where
  "py_contains key (JDict kvs) = Inr (key \<in> set (map fst kvs))"
| "py_contains key (JList xs) = Inr (JStr key \<in> set xs)"
| "py_contains key (JStr s) = Inr (sublist key s)"
| "py_contains key JNull = Inl TypeError"
| "py_contains key (JBool b) = Inl TypeError"
| "py_contains key (JInt i) = Inl TypeError"
| "py_contains key (JFloat r) = Inl TypeError"

text \<open>\<^verbatim>\<open>obj.get(key, default)\<close>: only a dict has the method.\<close>

fun py_get :: "json \<Rightarrow> string \<Rightarrow> json \<Rightarrow> py_error + json" where
  "py_get (JDict kvs) key dflt = Inr (case map_of kvs key of None \<Rightarrow> dflt | Some v \<Rightarrow> v)"
| "py_get JNull key dflt = Inl AttributeError"
| "py_get (JBool b) key dflt = Inl AttributeError"
| "py_get (JInt i) key dflt = Inl AttributeError"
| "py_get (JFloat r) key dflt = Inl AttributeError"
| "py_get (JStr s) key dflt = Inl AttributeError"
| "py_get (JList xs) key dflt = Inl AttributeError"

text \<open>
  \<^verbatim>\<open>obj[key]\<close> for a str key: KeyError on a dict without the key; a list and a str take
  integer indices only, and the other objects are not subscriptable, which is TypeError.
\<close>

fun py_getitem :: "json \<Rightarrow> string \<Rightarrow> py_error + json" where
  "py_getitem (JDict kvs) key = (case map_of kvs key of None \<Rightarrow> Inl KeyError | Some v \<Rightarrow> Inr v)"
| "py_getitem JNull key = Inl TypeError"
| "py_getitem (JBool b) key = Inl TypeError"
| "py_getitem (JInt i) key = Inl TypeError"
| "py_getitem (JFloat r) key = Inl TypeError"
| "py_getitem (JStr s) key = Inl TypeError"
| "py_getitem (JList xs) key = Inl TypeError"

text \<open>\<^verbatim>\<open>obj.items()\<close>: only a dict has the method.\<close>

fun py_items :: "json \<Rightarrow> py_error + (string \<times> json) list" where
  "py_items (JDict kvs) = Inr kvs"
| "py_items JNull = Inl AttributeError"
| "py_items (JBool b) = Inl AttributeError"
| "py_items (JInt i) = Inl AttributeError"
| "py_items (JFloat r) = Inl AttributeError"
| "py_items (JStr s) = Inl AttributeError"
| "py_items (JList xs) = Inl AttributeError"

text \<open>
  \<^verbatim>\<open>for row in obj\<close>: the elements of a list, the keys of a dict, the characters of a
  str (one per byte here; the code observes of them only that each is a str); the other
  objects are not iterable.
\<close>

fun py_iter :: "json \<Rightarrow> py_error + json list" where
  "py_iter (JList xs) = Inr xs"
| "py_iter (JDict kvs) = Inr (map (\<lambda>kv. JStr (fst kv)) kvs)"
| "py_iter (JStr s) = Inr (map (\<lambda>c. JStr [c]) s)"
| "py_iter JNull = Inl TypeError"
| "py_iter (JBool b) = Inl TypeError"
| "py_iter (JInt i) = Inl TypeError"
| "py_iter (JFloat r) = Inl TypeError"

text \<open>
  A str is modelled by the list of its UTF-8 bytes; on valid UTF-8, equality, emptiness and
  the substring test are the same on bytes as on code points. \<^verbatim>\<open>str.lower()\<close> is needed
  only for the test \<^verbatim>\<open>"nvme" in device.lower()\<close>, and is modelled on the ASCII letters:
  no other character lower-cases to n, v, m or e, and the bytes of the other characters,
  which stay as they are here, are no ASCII letters, so the test has the same outcome.
\<close>

definition lower_char :: "char \<Rightarrow> char" where
  "lower_char c =
     (if (65::nat) \<le> of_char c \<and> of_char c \<le> (90::nat)
      then char_of (of_char c + (32::nat)) else c)"

definition str_lower :: "string \<Rightarrow> string" where
  "str_lower s = map lower_char s"

text \<open>
  \<^verbatim>\<open>obj.upper()\<close> on any object: only a str has the method. What \<^verbatim>\<open>str.upper()\<close> returns
  is decided by the Unicode tables of the interpreter (it maps, for one, the sharp s to SS),
  which are no part of the repository: the function \<open>upper\<close> on strs is a parameter of
  the model.
\<close>

fun py_upper :: "(string \<Rightarrow> string) \<Rightarrow> json \<Rightarrow> py_error + string" where
  "py_upper upper (JStr s) = Inr (upper s)"
| "py_upper upper JNull = Inl AttributeError"
| "py_upper upper (JBool b) = Inl AttributeError"
| "py_upper upper (JInt i) = Inl AttributeError"
| "py_upper upper (JFloat r) = Inl AttributeError"
| "py_upper upper (JList xs) = Inl AttributeError"
| "py_upper upper (JDict kvs) = Inl AttributeError"

text \<open>Running a fallible function over a list, stopping at the first exception.\<close>

fun map_err :: "('a \<Rightarrow> py_error + 'b) \<Rightarrow> 'a list \<Rightarrow> py_error + 'b list" where
  "map_err f [] = Inr []"
| "map_err f (x # xs) =
     (case f x of
        Inl e \<Rightarrow> Inl e
      | Inr y \<Rightarrow> (case map_err f xs of Inl e \<Rightarrow> Inl e | Inr ys \<Rightarrow> Inr (y # ys)))"

section \<open>The data model (dh\_types.py)\<close>

text \<open>
  The fields of \<^verbatim>\<open>SmartAttribute\<close> (\<^verbatim>\<open>id\<close>, \<^verbatim>\<open>name\<close>, \<^verbatim>\<open>value\<close>, \<^verbatim>\<open>worst\<close>, \<^verbatim>\<open>thresh\<close>,
  \<^verbatim>\<open>raw\<close>) carry the prefix \<open>attr_\<close>, since \<^verbatim>\<open>id\<close> is a constant of HOL and \<^verbatim>\<open>raw\<close> is a
  field of \<^verbatim>\<open>SmartReport\<close> too. They hold whatever object the document holds, so their
  type is that of the document.
\<close>

datatype DiskType = NVME | SATA_ATA | UNKNOWN

record SmartAttribute =
  attr_id :: json
  attr_name :: json
  attr_value :: json
  attr_worst :: json
  attr_thresh :: json
  attr_raw :: json

record SmartReport =
  device :: string
  health :: string
  disk_type :: DiskType
  attributes :: "SmartAttribute list"
  raw :: json
  json_data :: json

text \<open>\<^verbatim>\<open>SmartPayload = dict[str, Any]\<close>: a dict, read only through \<^verbatim>\<open>get\<close>.\<close>

type_synonym SmartPayload = "(string \<times> json) list"

section \<open>Telemetry synthesis (smart.py)\<close>

text \<open>
  The functions keep their names without the leading underscore. Each returns the
  exception it raises (\<open>Inl\<close>) or its value (\<open>Inr\<close>), and evaluates its parts in the order
  of the source.
\<close>

definition detect_disk_type :: "string \<Rightarrow> json \<Rightarrow> py_error + DiskType" where
  "detect_disk_type dev jd =
     (if sublist ''nvme'' (str_lower dev) then Inr NVME
      else if truthy jd then
        (case py_contains ''nvme_smart_health_information_log'' jd of
           Inl e \<Rightarrow> Inl e
         | Inr True \<Rightarrow> Inr NVME
         | Inr False \<Rightarrow>
             (case py_contains ''ata_smart_attributes'' jd of
                Inl e \<Rightarrow> Inl e
              | Inr True \<Rightarrow> Inr SATA_ATA
              | Inr False \<Rightarrow> Inr UNKNOWN))
      else Inr UNKNOWN)"

text \<open>The element expression of the list comprehension in \<^verbatim>\<open>_parse_ata_attributes\<close>.\<close>

definition ata_row :: "json \<Rightarrow> py_error + SmartAttribute" where
  "ata_row row =
     (case py_get row ''id'' (JStr '''') of Inl e \<Rightarrow> Inl e | Inr i \<Rightarrow>
      case py_get row ''name'' (JStr '''') of Inl e \<Rightarrow> Inl e | Inr n \<Rightarrow>
      case py_get row ''value'' (JStr '''') of Inl e \<Rightarrow> Inl e | Inr v \<Rightarrow>
      case py_get row ''worst'' (JStr '''') of Inl e \<Rightarrow> Inl e | Inr w \<Rightarrow>
      case py_get row ''thresh'' (JStr '''') of Inl e \<Rightarrow> Inl e | Inr t \<Rightarrow>
      case py_get row ''raw'' (JStr '''') of Inl e \<Rightarrow> Inl e | Inr r \<Rightarrow>
        Inr \<lparr>attr_id = i, attr_name = n, attr_value = v,
             attr_worst = w, attr_thresh = t, attr_raw = r\<rparr>)"

definition parse_ata_attributes :: "json \<Rightarrow> py_error + SmartAttribute list" where
  "parse_ata_attributes ata_table =
     (case py_iter ata_table of Inl e \<Rightarrow> Inl e | Inr rows \<Rightarrow> map_err ata_row rows)"

definition nvme_attr :: "string \<times> json \<Rightarrow> SmartAttribute" where
  "nvme_attr kv =
     \<lparr>attr_id = JStr ''-'', attr_name = JStr (fst kv), attr_value = snd kv,
      attr_worst = JStr '''', attr_thresh = JStr '''', attr_raw = snd kv\<rparr>"

definition parse_nvme_attributes :: "json \<Rightarrow> py_error + SmartAttribute list" where
  "parse_nvme_attributes nvme_log =
     (case py_items nvme_log of Inl e \<Rightarrow> Inl e | Inr kvs \<Rightarrow> Inr (map nvme_attr kvs))"

definition determine_health_from_json :: "json \<Rightarrow> py_error + string" where
  "determine_health_from_json jd =
     (case py_get jd ''smart_status'' JNull of
        Inl e \<Rightarrow> Inl e
      | Inr smart_status \<Rightarrow>
          if \<not> truthy smart_status then Inr ''UNKNOWN''
          else
            (case py_contains ''passed'' smart_status of
               Inl e \<Rightarrow> Inl e
             | Inr False \<Rightarrow> Inr ''UNKNOWN''
             | Inr True \<Rightarrow>
                 (case py_getitem smart_status ''passed'' of
                    Inl e \<Rightarrow> Inl e
                  | Inr p \<Rightarrow> Inr (if truthy p then ''PASSED'' else ''FAILED''))))"

definition determine_health_from_raw ::
  "(string \<Rightarrow> string) \<Rightarrow> json \<Rightarrow> py_error + string" where
  "determine_health_from_raw upper raw_data =
     (if \<not> truthy raw_data then Inr ''UNKNOWN''
      else
        (case py_upper upper raw_data of
           Inl e \<Rightarrow> Inl e
         | Inr raw_upper \<Rightarrow>
             if sublist ''PASSED'' raw_upper \<or> sublist ''OK'' raw_upper then Inr ''PASSED''
             else if sublist ''FAILED'' raw_upper then Inr ''FAILED''
             else Inr ''UNKNOWN''))"

text \<open>\<^verbatim>\<open>smart_payload.get(key)\<close>: the payload is a dict, and a missing key gives \<^verbatim>\<open>None\<close>.\<close>

definition payload_get :: "SmartPayload \<Rightarrow> string \<Rightarrow> json" where
  "payload_get smart_payload key = (case map_of smart_payload key of None \<Rightarrow> JNull | Some v \<Rightarrow> v)"

text \<open>
  The expression \<^verbatim>\<open>json_data.get("ata_smart_attributes", {}).get("table", [])\<close> of
  line 101.
\<close>

definition ata_table_of :: "json \<Rightarrow> py_error + json" where
  "ata_table_of jd =
     (case py_get jd ''ata_smart_attributes'' (JDict []) of
        Inl e \<Rightarrow> Inl e
      | Inr ata \<Rightarrow> py_get ata ''table'' (JList []))"

text \<open>The attribute part of \<^verbatim>\<open>synthesize_report\<close> (lines 93 to 102).\<close>

definition extract_attributes :: "DiskType \<Rightarrow> json \<Rightarrow> py_error + SmartAttribute list" where
  "extract_attributes dt jd =
     (if truthy jd then
        (if dt = NVME then
           (case py_get jd ''nvme_smart_health_information_log'' (JDict []) of
              Inl e \<Rightarrow> Inl e
            | Inr nvme_log \<Rightarrow> parse_nvme_attributes nvme_log)
         else if dt = SATA_ATA then
           (case ata_table_of jd of
              Inl e \<Rightarrow> Inl e
            | Inr ata_table \<Rightarrow> parse_ata_attributes ata_table)
         else Inr [])
      else Inr [])"

definition synthesize_report ::
  "(string \<Rightarrow> string) \<Rightarrow> string \<Rightarrow> SmartPayload \<Rightarrow> py_error + SmartReport" where
  "synthesize_report upper dev smart_payload =
     (let jd = payload_get smart_payload ''json'';
          raw_data = payload_get smart_payload ''raw''
      in case detect_disk_type dev jd of
           Inl e \<Rightarrow> Inl e
         | Inr dt \<Rightarrow>
             (case (if truthy jd then determine_health_from_json jd
                    else determine_health_from_raw upper raw_data) of
                Inl e \<Rightarrow> Inl e
              | Inr h \<Rightarrow>
                  (case extract_attributes dt jd of
                     Inl e \<Rightarrow> Inl e
                   | Inr attrs \<Rightarrow>
                       Inr \<lparr>device = dev, health = h, disk_type = dt,
                            attributes = attrs, raw = raw_data, json_data = jd\<rparr>)))"

section \<open>Floats\<close>

text \<open>
  A Python float is an IEEE 754 binary64 value: a number, an infinity or NaN. \<open>Finite r\<close>
  stands for the number \<open>r\<close>; the two zeros, which compare equal, are both \<open>Finite 0\<close>.
  Arithmetic rounds the exact result to the nearest binary64 number, ties to the even
  significand: \<open>binade x 2045\<close> is the exponent \<open>e\<close> of the binade of \<open>x\<close>, between
  \<open>-1022\<close> (which serves the subnormal numbers too) and \<open>1023\<close>, the numbers of that binade
  are the multiples of \<open>2 powi (e - 52)\<close>, and a result that rounds to \<open>2 ^ 1024\<close> or beyond
  is an infinity. The type admits \<open>Finite r\<close> for every real \<open>r\<close>, also where \<open>r\<close> is no
  binary64 number; what is proved for every \<open>Finite r\<close> holds for the floats among them.
\<close>

datatype pyfloat = Finite real | PosInf | NegInf | NaN

definition round_half_even :: "real \<Rightarrow> int" where
  "round_half_even x =
     (let f = \<lfloor>x\<rfloor>; d = x - of_int f
      in if d < 1 / 2 then f else if 1 / 2 < d then f + 1 else if even f then f else f + 1)"

fun binade :: "real \<Rightarrow> nat \<Rightarrow> int" where
  "binade x 0 = - 1022"
| "binade x (Suc n) =
     (if 2 powi (int n - 1021) \<le> x then int n - 1021 else binade x n)"

definition round64 :: "real \<Rightarrow> pyfloat" where
  "round64 x =
     (let u = 2 powi (binade \<bar>x\<bar> 2045 - 52);
          y = of_int (round_half_even (x / u)) * u
      in if 2 ^ 1024 \<le> y then PosInf else if y \<le> - (2 ^ 1024) then NegInf else Finite y)"

text \<open>
  \<^verbatim>\<open>a / b\<close> on two ints: ZeroDivisionError when the divisor is zero; otherwise the exact
  quotient rounded once, and OverflowError when it is too large for a float.
\<close>

definition int_truediv :: "int \<Rightarrow> int \<Rightarrow> py_error + pyfloat" where
  "int_truediv a b =
     (if b = 0 then Inl ZeroDivisionError
      else
        (case round64 (of_int a / of_int b) of
           Finite y \<Rightarrow> Inr (Finite y)
         | PosInf \<Rightarrow> Inl OverflowError
         | NegInf \<Rightarrow> Inl OverflowError
         | NaN \<Rightarrow> Inl OverflowError))"

text \<open>\<^verbatim>\<open>a * b\<close> on two floats: it raises nothing, and overflows to an infinity.\<close>

fun float_mul :: "pyfloat \<Rightarrow> pyfloat \<Rightarrow> pyfloat" where
  "float_mul NaN b = NaN"
| "float_mul a NaN = NaN"
| "float_mul (Finite x) (Finite y) = round64 (x * y)"
| "float_mul (Finite x) PosInf = (if x = 0 then NaN else if 0 < x then PosInf else NegInf)"
| "float_mul (Finite x) NegInf = (if x = 0 then NaN else if 0 < x then NegInf else PosInf)"
| "float_mul PosInf (Finite y) = (if y = 0 then NaN else if 0 < y then PosInf else NegInf)"
| "float_mul NegInf (Finite y) = (if y = 0 then NaN else if 0 < y then NegInf else PosInf)"
| "float_mul PosInf PosInf = PosInf"
| "float_mul PosInf NegInf = NegInf"
| "float_mul NegInf PosInf = NegInf"
| "float_mul NegInf NegInf = PosInf"



section \<open>Performance sampling (benchmark.py)\<close>

text \<open>
  NumPy is no part of the repository. What \<^verbatim>\<open>np.mean\<close>, \<^verbatim>\<open>np.min\<close> and \<^verbatim>\<open>np.max\<close> return
  on a sequence of floats that is not empty (in which order the mean sums and rounds, for
  one) is a parameter of the model, the record \<open>np\<close>. On the empty sequence \<^verbatim>\<open>np.mean\<close>
  gives NaN, with a warning, and \<^verbatim>\<open>np.min\<close> and \<^verbatim>\<open>np.max\<close> raise ValueError. The
  conversion \<^verbatim>\<open>float(...)\<close> of a NumPy double changes nothing.
\<close>

record numpy =
  mean :: "pyfloat list \<Rightarrow> pyfloat"
  amin :: "pyfloat list \<Rightarrow> pyfloat"
  amax :: "pyfloat list \<Rightarrow> pyfloat"

definition np_mean :: "numpy \<Rightarrow> pyfloat list \<Rightarrow> pyfloat" where
  "np_mean np xs = (if xs = [] then NaN else mean np xs)"

definition np_min :: "numpy \<Rightarrow> pyfloat list \<Rightarrow> py_error + pyfloat" where
  "np_min np xs = (if xs = [] then Inl ValueError else Inr (amin np xs))"

definition np_max :: "numpy \<Rightarrow> pyfloat list \<Rightarrow> py_error + pyfloat" where
  "np_max np xs = (if xs = [] then Inl ValueError else Inr (amax np xs))"

record BenchmarkResults =
  read_speeds :: "pyfloat list"
  access_times :: "pyfloat list"
  positions :: "pyfloat list"
  avg_read_speed :: pyfloat
  min_read_speed :: pyfloat
  max_read_speed :: pyfloat
  avg_access_time :: pyfloat
  min_access_time :: pyfloat
  max_access_time :: pyfloat


text \<open>In \<^verbatim>\<open>(position / total_size) * 100\<close> the int 100 becomes the float 100.0.\<close>

definition calculate_position_percentage :: "int \<Rightarrow> int \<Rightarrow> py_error + pyfloat" where
  "calculate_position_percentage position total_size =
     (if total_size \<le> 0 then Inr (Finite 0)
      else
        (case int_truediv position total_size of
           Inl e \<Rightarrow> Inl e
         | Inr q \<Rightarrow> Inr (float_mul q (Finite 100))))"

definition compute_benchmark_stats ::
  "numpy \<Rightarrow> pyfloat list \<Rightarrow> pyfloat list \<Rightarrow> pyfloat list \<Rightarrow> py_error + BenchmarkResults" where
  "compute_benchmark_stats np rs ats ps =
     (if rs = [] then
        Inr \<lparr>read_speeds = [], access_times = [], positions = [],
             avg_read_speed = Finite 0, min_read_speed = Finite 0, max_read_speed = Finite 0,
             avg_access_time = Finite 0, min_access_time = Finite 0,
             max_access_time = Finite 0\<rparr>
      else
        (case np_min np rs of Inl e \<Rightarrow> Inl e | Inr min_rs \<Rightarrow>
         case np_max np rs of Inl e \<Rightarrow> Inl e | Inr max_rs \<Rightarrow>
         case (if ats \<noteq> [] then np_min np ats else Inr (Finite 0)) of
           Inl e \<Rightarrow> Inl e | Inr min_at \<Rightarrow>
         case (if ats \<noteq> [] then np_max np ats else Inr (Finite 0)) of
           Inl e \<Rightarrow> Inl e | Inr max_at \<Rightarrow>
           Inr \<lparr>read_speeds = rs, access_times = ats, positions = ps,
                avg_read_speed = np_mean np rs, min_read_speed = min_rs,
                max_read_speed = max_rs,
                avg_access_time = (if ats \<noteq> [] then np_mean np ats else Finite 0),
                min_access_time = min_at, max_access_time = max_at\<rparr>))"

section \<open>Vocabulary of the properties\<close>

fun is_dict :: "json \<Rightarrow> bool" where
  "is_dict (JDict kvs) = True"
| "is_dict j = False"









text \<open>The value a row holds under a key, and the empty string when it omits the key.\<close>

definition row_field :: "(string \<times> json) list \<Rightarrow> string \<Rightarrow> json" where
  "row_field row key = (case map_of row key of None \<Rightarrow> JStr '''' | Some v \<Rightarrow> v)"

definition ata_attr :: "(string \<times> json) list \<Rightarrow> SmartAttribute" where
  "ata_attr row =
     \<lparr>attr_id = row_field row ''id'', attr_name = row_field row ''name'',
      attr_value = row_field row ''value'', attr_worst = row_field row ''worst'',
      attr_thresh = row_field row ''thresh'', attr_raw = row_field row ''raw''\<rparr>"

section \<open>Instances of the parameters, for the examples\<close>

text \<open>
  The theorems hold for every \<open>upper\<close> and every \<open>np\<close>. The examples need one of each.
  \<open>ascii_upper\<close> is \<^verbatim>\<open>str.upper()\<close> on ASCII text, and the examples apply it to ASCII text
  only. \<open>small_numpy\<close> gives the three reductions on a sequence of one or two numbers,
  where the one sum is rounded and then the quotient; the examples apply it to such
  sequences only, and its value on the others is a placeholder.
\<close>

definition upper_char :: "char \<Rightarrow> char" where
  "upper_char c =
     (if (97::nat) \<le> of_char c \<and> of_char c \<le> (122::nat)
      then char_of (of_char c - (32::nat)) else c)"

definition ascii_upper :: "string \<Rightarrow> string" where
  "ascii_upper s = map upper_char s"

fun small_mean :: "pyfloat list \<Rightarrow> pyfloat" where
  "small_mean [Finite a] = Finite a"
| "small_mean [Finite a, Finite b] =
     (case round64 (a + b) of
        Finite s \<Rightarrow> round64 (s / 2)
      | PosInf \<Rightarrow> PosInf | NegInf \<Rightarrow> NegInf | NaN \<Rightarrow> NaN)"
| "small_mean xs = NaN"

fun small_min :: "pyfloat list \<Rightarrow> pyfloat" where
  "small_min [Finite a] = Finite a"
| "small_min [Finite a, Finite b] = Finite (min a b)"
| "small_min xs = NaN"

fun small_max :: "pyfloat list \<Rightarrow> pyfloat" where
  "small_max [Finite a] = Finite a"
| "small_max [Finite a, Finite b] = Finite (max a b)"
| "small_max xs = NaN"

definition small_numpy :: numpy where
  "small_numpy = \<lparr>mean = small_mean, amin = small_min, amax = small_max\<rparr>"

section \<open>Auxiliary facts\<close>

lemma is_dict_iff: "is_dict j \<longleftrightarrow> (\<exists>kvs. j = JDict kvs)"
  by (cases j) simp_all


lemma ata_row_ata_attr: "ata_row (JDict row) = Inr (ata_attr row)"
  by (simp add: ata_row_def ata_attr_def row_field_def)

lemma ata_row_Inr_dict: "ata_row row = Inr a \<Longrightarrow> is_dict row"
  by (cases row) (simp_all add: ata_row_def)


lemma map_err_ata_rows:
  "map_err ata_row xs = Inr attrs \<Longrightarrow>
     \<exists>rows. xs = map JDict rows \<and> attrs = map ata_attr rows"
proof (induction xs arbitrary: attrs)
  case Nil
  then show ?case by simp
next
  case (Cons x xs)
  from Cons.prems obtain a attrs' where a: "ata_row x = Inr a"
    and rest: "map_err ata_row xs = Inr attrs'" and eq: "attrs = a # attrs'"
    by (auto split: sum.splits)
  from ata_row_Inr_dict[OF a] obtain row where x: "x = JDict row"
    by (auto simp: is_dict_iff)
  from a x have a': "a = ata_attr row" by (simp add: ata_row_ata_attr)
  from Cons.IH[OF rest] obtain rows where "xs = map JDict rows" "attrs' = map ata_attr rows"
    by blast
  then have "x # xs = map JDict (row # rows) \<and> attrs = map ata_attr (row # rows)"
    using x a' eq by simp
  then show ?case by (rule exI[of _ "row # rows"])
qed

lemma map_err_ata_dicts: "map_err ata_row (map JDict rows) = Inr (map ata_attr rows)"
  by (induction rows) (simp_all add: ata_row_ata_attr)



lemma parse_ata_rows:
  assumes "parse_ata_attributes t = Inr attrs"
  shows "\<exists>rows. py_iter t = Inr (map JDict rows) \<and> attrs = map ata_attr rows"
proof -
  from assms obtain xs where xs: "py_iter t = Inr xs" and me: "map_err ata_row xs = Inr attrs"
    by (auto simp: parse_ata_attributes_def split: sum.splits)
  from map_err_ata_rows[OF me] xs show ?thesis by blast
qed



lemma detect_SATA_truthy:
  "detect_disk_type dev jd = Inr SATA_ATA \<Longrightarrow> truthy jd"
  by (auto simp: detect_disk_type_def split: if_splits)










lemma extract_nvme:
  assumes "extract_attributes NVME jd = Inr attrs"
  shows "\<exists>kvs. attrs = map nvme_attr kvs"
proof (cases "truthy jd")
  case True
  with assms obtain l where "parse_nvme_attributes l = Inr attrs"
    by (auto simp: extract_attributes_def split: sum.splits)
  then show ?thesis
    by (auto simp: parse_nvme_attributes_def split: sum.splits)
next
  case False
  with assms have "attrs = map nvme_attr []" by (simp add: extract_attributes_def)
  then show ?thesis by blast
qed

lemma extract_sata:
  assumes "extract_attributes SATA_ATA jd = Inr attrs" and "truthy jd"
  shows "\<exists>tbl rows. ata_table_of jd = Inr tbl \<and> py_iter tbl = Inr (map JDict rows) \<and>
           attrs = map ata_attr rows"
proof -
  from assms obtain tbl where t: "ata_table_of jd = Inr tbl"
    and pa: "parse_ata_attributes tbl = Inr attrs"
    by (auto simp: extract_attributes_def split: sum.splits)
  from parse_ata_rows[OF pa] t show ?thesis by blast
qed

text \<open>The three stages of \<^verbatim>\<open>synthesize_report\<close>, read off a returned report.\<close>

lemma synth_Inr_iff:
  "synthesize_report upper dev p = Inr r \<longleftrightarrow>
     detect_disk_type dev (payload_get p ''json'') = Inr (disk_type r) \<and>
     (if truthy (payload_get p ''json'')
      then determine_health_from_json (payload_get p ''json'')
      else determine_health_from_raw upper (payload_get p ''raw'')) = Inr (health r) \<and>
     extract_attributes (disk_type r) (payload_get p ''json'') = Inr (attributes r) \<and>
     device r = dev \<and> raw r = payload_get p ''raw'' \<and> json_data r = payload_get p ''json''"
  by (cases r) (auto simp: synthesize_report_def Let_def split: sum.splits)

lemma synth_Inr_parts:
  assumes "synthesize_report upper dev p = Inr r"
  shows "detect_disk_type dev (payload_get p ''json'') = Inr (disk_type r)"
    and "extract_attributes (disk_type r) (payload_get p ''json'') = Inr (attributes r)"
  using assms by (simp_all add: synth_Inr_iff)


lemma synth_health:
  "map_sum id health (synthesize_report upper dev p) =
     (case detect_disk_type dev (payload_get p ''json'') of
        Inl e \<Rightarrow> Inl e
      | Inr dt \<Rightarrow>
         (case (if truthy (payload_get p ''json'')
                then determine_health_from_json (payload_get p ''json'')
                else determine_health_from_raw upper (payload_get p ''raw'')) of
            Inl e \<Rightarrow> Inl e
          | Inr h \<Rightarrow>
             (case extract_attributes dt (payload_get p ''json'') of
                Inl e \<Rightarrow> Inl e | Inr attrs \<Rightarrow> Inr h)))"
  by (simp add: synthesize_report_def Let_def split: sum.splits)

lemma synth_falsy_document:
  assumes "\<not> sublist ''nvme'' (str_lower dev)" and "\<not> truthy (payload_get p ''json'')"
  shows "synthesize_report upper dev p =
           map_sum id (\<lambda>h. \<lparr>device = dev, health = h, disk_type = UNKNOWN, attributes = [],
                             raw = payload_get p ''raw'',
                             json_data = payload_get p ''json''\<rparr>)
             (determine_health_from_raw upper (payload_get p ''raw''))"
  using assms
  by (simp add: synthesize_report_def detect_disk_type_def extract_attributes_def Let_def
      split: sum.splits)

lemma nvme_attr_fields:
  "attr_id (nvme_attr kv) = JStr ''-'' \<and> attr_worst (nvme_attr kv) = JStr '''' \<and>
   attr_thresh (nvme_attr kv) = JStr '''' \<and> attr_raw (nvme_attr kv) = attr_value (nvme_attr kv)"
  by (simp add: nvme_attr_def)


section \<open>Auxiliary facts on rounding\<close>

lemma binade_low: "x < 2 powi (- 1021) \<Longrightarrow> binade x n = - 1022"
proof (induction n)
  case 0
  show ?case by simp
next
  case (Suc n)
  have "(2::real) powi (- 1021) \<le> 2 powi (int n - 1021)"
    by (rule power_int_increasing) simp_all
  with Suc.prems have "\<not> 2 powi (int n - 1021) \<le> x" by linarith
  with Suc show ?case by simp
qed

lemma powi2_less_exp: "(2::real) powi a < 2 powi b \<Longrightarrow> a < b"
proof (rule ccontr)
  assume lt: "(2::real) powi a < 2 powi b" and "\<not> a < b"
  then have "b \<le> a" by simp
  then have "(2::real) powi b \<le> 2 powi a" by (intro power_int_increasing) simp_all
  with lt show False by linarith
qed

lemma binade_eq:
  "2 powi e \<le> x \<Longrightarrow> x < 2 powi (e + 1) \<Longrightarrow> - 1021 \<le> e \<Longrightarrow> e \<le> int n - 1022 \<Longrightarrow>
     binade x n = e"
proof (induction n)
  case 0
  then show ?case by simp
next
  case (Suc n)
  show ?case
  proof (cases "2 powi (int n - 1021) \<le> x")
    case True
    with Suc.prems(2) have "(2::real) powi (int n - 1021) < 2 powi (e + 1)" by linarith
    then have "int n - 1021 < e + 1" by (rule powi2_less_exp)
    with Suc.prems(4) have "e = int n - 1021" by simp
    with True show ?thesis by simp
  next
    case False
    with Suc.prems(1) have "(2::real) powi e < 2 powi (int n - 1021)" by linarith
    then have "e < int n - 1021" by (rule powi2_less_exp)
    then have "e \<le> int n - 1022" by simp
    from Suc.IH[OF Suc.prems(1,2,3) this] False show ?thesis by simp
  qed
qed

lemma binade_top: "2 powi 1023 \<le> x \<Longrightarrow> binade x 2045 = 1023"
proof -
  assume a: "2 powi 1023 \<le> x"
  from binade.simps(2)[of x 2044] a show ?thesis by simp
qed

lemma round_half_even_of_int: "round_half_even (of_int m) = m"
  by (simp add: round_half_even_def)

lemma round_half_even_ge_floor: "\<lfloor>x\<rfloor> \<le> round_half_even x"
  by (simp add: round_half_even_def Let_def)

text \<open>A number of a normal binade rounds to itself.\<close>

lemma round64_exact:
  assumes "2 powi e \<le> \<bar>x\<bar>" and "\<bar>x\<bar> < 2 powi (e + 1)" and "- 1021 \<le> e" and "e \<le> 1023"
    and "x = of_int m * 2 powi (e - 52)"
  shows "round64 x = Finite x"
proof -
  have b: "binade \<bar>x\<bar> 2045 = e"
    using assms(1-4) by (intro binade_eq) simp_all
  have pos: "(0::real) < 2 powi (e - 52)" by simp
  have q: "x / 2 powi (e - 52) = of_int m" using assms(5) pos by simp
  have y: "of_int (round_half_even (x / 2 powi (e - 52))) * 2 powi (e - 52) = x"
    by (simp add: q round_half_even_of_int assms(5)[symmetric])
  have "(2::real) powi (e + 1) \<le> 2 powi 1024"
    using assms(4) by (intro power_int_increasing) simp_all
  then have "\<bar>x\<bar> < 2 ^ 1024" using assms(2) by simp
  then have "\<not> 2 ^ 1024 \<le> x" "\<not> x \<le> - (2 ^ 1024)" by linarith+
  then show ?thesis by (simp add: round64_def Let_def b y)
qed

text \<open>A number from \<open>2 ^ 1024\<close> on rounds to the infinity.\<close>

lemma round64_overflow:
  assumes "2 ^ 1024 \<le> x"
  shows "round64 x = PosInf"
proof -
  have x0: "0 \<le> x" using assms by (meson order_trans zero_le_numeral zero_le_power)
  have "(2::real) powi 1023 \<le> 2 powi 1024" by (rule power_int_increasing) simp_all
  then have "2 powi 1023 \<le> \<bar>x\<bar>" using assms x0 by simp
  then have b: "binade \<bar>x\<bar> 2045 = 1023" by (rule binade_top)
  have u: "(2::real) powi (1023 - 52) = 2 ^ 971" by (simp add: power_int_def)
  have "(2::real) ^ 1024 = 2 ^ 53 * 2 ^ 971" by (simp flip: power_add)
  with assms have "(2::real) ^ 53 \<le> x / 2 ^ 971" by (simp add: le_divide_eq)
  then have "(2::int) ^ 53 \<le> \<lfloor>x / 2 ^ 971\<rfloor>" by (simp add: le_floor_iff)
  with round_half_even_ge_floor[of "x / 2 ^ 971"]
  have "(2::int) ^ 53 \<le> round_half_even (x / 2 ^ 971)" by linarith
  then have "(2::real) ^ 53 \<le> of_int (round_half_even (x / 2 ^ 971))"
    by (metis of_int_le_iff of_int_numeral of_int_power)
  then have "(2::real) ^ 53 * 2 ^ 971 \<le> of_int (round_half_even (x / 2 ^ 971)) * 2 ^ 971"
    by (simp add: mult_right_mono)
  then have "(2::real) ^ 1024 \<le> of_int (round_half_even (x / 2 ^ 971)) * 2 ^ 971"
    by (simp flip: power_add)
  then show ?thesis by (simp add: round64_def Let_def b u)
qed

lemma round_half_even_le: "round_half_even x \<le> \<lfloor>x\<rfloor> + 1"
  by (simp add: round_half_even_def Let_def)

text \<open>The rounding of a number of a known binade below the topmost one.\<close>

lemma round64_binade:
  assumes "2 powi e \<le> \<bar>x\<bar>" and "\<bar>x\<bar> < 2 powi (e + 1)" and "- 1021 \<le> e" and "e \<le> 1022"
  shows "round64 x = Finite (of_int (round_half_even (x / 2 powi (e - 52))) * 2 powi (e - 52))"
proof -
  let ?u = "(2::real) powi (e - 52)"
  let ?n = "round_half_even (x / ?u)"
  have b: "binade \<bar>x\<bar> 2045 = e"
    using assms by (intro binade_eq) simp_all
  have u: "0 < ?u" by simp
  have split: "(2::real) powi (e + 1) = 2 ^ 53 * ?u"
    by (simp add: power_int_diff power_int_add)
  from assms(2) split have "\<bar>x\<bar> < 2 ^ 53 * ?u" by simp
  then have "x < 2 ^ 53 * ?u" and "- (2 ^ 53 * ?u) < x" by linarith+
  then have hi: "x / ?u < 2 ^ 53" and lo: "- (2 ^ 53) < x / ?u"
    using u by (simp_all add: pos_divide_less_eq pos_less_divide_eq)
  from hi have "\<lfloor>x / ?u\<rfloor> < 2 ^ 53" by (simp add: floor_less_iff)
  with round_half_even_le[of "x / ?u"] have n_hi: "?n \<le> 2 ^ 53" by linarith
  from lo have "- (2 ^ 53) \<le> \<lfloor>x / ?u\<rfloor>" by (simp add: le_floor_iff)
  with round_half_even_ge_floor[of "x / ?u"] have n_lo: "- (2 ^ 53) \<le> ?n" by linarith
  have top: "(2::real) powi (e + 1) < 2 ^ 1024"
  proof -
    have "(2::real) powi (e + 1) \<le> 2 powi 1023"
      using assms(4) by (intro power_int_increasing) simp_all
    also have "\<dots> < 2 powi 1024" by (intro power_int_strict_increasing) simp_all
    finally show ?thesis by simp
  qed
  from n_hi have "real_of_int ?n \<le> 2 ^ 53" by (metis of_int_le_iff of_int_numeral of_int_power)
  then have "of_int ?n * ?u \<le> 2 ^ 53 * ?u" using u by (simp add: mult_right_mono)
  with split top have y_hi: "\<not> 2 ^ 1024 \<le> of_int ?n * ?u" by linarith
  from n_lo have "- (2 ^ 53) \<le> real_of_int ?n"
    by (metis of_int_le_iff of_int_minus of_int_numeral of_int_power)
  then have "- (2 ^ 53) * ?u \<le> of_int ?n * ?u"
    using u by (intro mult_right_mono) simp_all
  with split top have y_lo: "\<not> of_int ?n * ?u \<le> - (2 ^ 1024)" by linarith
  from y_hi y_lo show ?thesis by (simp add: round64_def Let_def b)
qed

text \<open>Small numbers that are binary64 numbers, and one that is not.\<close>

lemma round64_1: "round64 1 = Finite 1"
  by (rule round64_exact[where e = 0 and m = "2 ^ 52"]) (simp_all add: power_int_def power_divide)

lemma round64_100: "round64 100 = Finite 100"
  by (rule round64_exact[where e = 6 and m = "100 * 2 ^ 46"])
    (simp_all add: power_int_def power_divide)

lemma round64_three_halves: "round64 (3 / 2) = Finite (3 / 2)"
  by (rule round64_exact[where e = 0 and m = "3 * 2 ^ 51"])
    (simp_all add: power_int_def power_divide)

lemma round64_150: "round64 150 = Finite 150"
  by (rule round64_exact[where e = 7 and m = "150 * 2 ^ 45"])
    (simp_all add: power_int_def power_divide)

lemma round64_quarter: "round64 (1 / 4) = Finite (1 / 4)"
  by (rule round64_exact[where e = "- 2" and m = "2 ^ 52"])
    (simp_all add: power_int_def power_divide)

lemma round64_25: "round64 25 = Finite 25"
  by (rule round64_exact[where e = 4 and m = "25 * 2 ^ 48"])
    (simp_all add: power_int_def power_divide)



lemma round64_195: "round64 195 = Finite 195"
  by (rule round64_exact[where e = 7 and m = "195 * 2 ^ 45"])
    (simp_all add: power_int_def power_divide)

lemma round64_195_halves: "round64 (195 / 2) = Finite (195 / 2)"
  by (rule round64_exact[where e = 6 and m = "195 * 2 ^ 45"])
    (simp_all add: power_int_def power_divide)

lemma round64_7_hundredths:
  "round64 (7 / 100) = Finite (1261007895663739 / 18014398509481984)"
  by (subst round64_binade[where e = "- 4"])
    (simp_all add: power_int_def power_divide round_half_even_def Let_def)

text \<open>The float of 7 / 100, times 100, is 31525197391593475 / 2 ^ 52.\<close>

lemma round64_7_hundredths_times_100:
  "round64 (31525197391593475 / 4503599627370496) =
     Finite (7881299347898369 / 1125899906842624)"
  by (subst round64_binade[where e = 2])
    (simp_all add: power_int_def power_divide round_half_even_def Let_def)

lemma int_truediv_cases:
  "b \<noteq> 0 \<Longrightarrow>
     int_truediv a b =
       (case round64 (of_int a / of_int b) of
          Finite q \<Rightarrow> Inr (Finite q)
        | PosInf \<Rightarrow> Inl OverflowError | NegInf \<Rightarrow> Inl OverflowError
        | NaN \<Rightarrow> Inl OverflowError)"
  by (simp add: int_truediv_def)

section \<open>Telemetry synthesis: the claims\<close>




text \<open>
  C2, as stated, fails: the empty dict is a document that is present, and with it the
  transcript decides the health, so two payloads with this document and different
  transcripts get different verdicts.
\<close>

theorem empty_document_consults_transcript:
  "map_sum id health (synthesize_report ascii_upper ''/dev/sda''
      [(''json'', JDict []), (''raw'', JStr ''PASSED'')])
   \<noteq> map_sum id health (synthesize_report ascii_upper ''/dev/sda''
      [(''json'', JDict []), (''raw'', JStr ''FAILED'')])"
  by (simp add: synthesize_report_def payload_get_def detect_disk_type_def
      determine_health_from_raw_def extract_attributes_def str_lower_def ascii_upper_def
      lower_char_def upper_char_def sublist_code)

text \<open>
  C2, amended: for every device and every document that is truthy (for a dict: not empty),
  two payloads with this document get the same outcome as far as the health goes, whatever
  their transcripts are: the same health verdict, or the same exception.
\<close>

theorem health_independent_of_transcript:
  assumes "truthy (payload_get p1 ''json'')"
      and "payload_get p2 ''json'' = payload_get p1 ''json''"
  shows "map_sum id health (synthesize_report upper dev p1) =
         map_sum id health (synthesize_report upper dev p2)"
  unfolding synth_health assms(2) using assms(1) by simp

text \<open>
  The amended C2 at a document that reports a failure, once with a transcript that says
  PASSED and once with no transcript.
\<close>

theorem health_independent_of_transcript_witness:
  "truthy (payload_get
     [(''json'', JDict [(''smart_status'', JDict [(''passed'', JBool False)])]),
      (''raw'', JStr ''PASSED'')] ''json'') \<and>
   payload_get [(''json'', JDict [(''smart_status'', JDict [(''passed'', JBool False)])])]
     ''json'' =
   payload_get
     [(''json'', JDict [(''smart_status'', JDict [(''passed'', JBool False)])]),
      (''raw'', JStr ''PASSED'')] ''json'' \<and>
   map_sum id health (synthesize_report ascii_upper ''/dev/sda''
     [(''json'', JDict [(''smart_status'', JDict [(''passed'', JBool False)])]),
      (''raw'', JStr ''PASSED'')]) =
   map_sum id health (synthesize_report ascii_upper ''/dev/sda''
     [(''json'', JDict [(''smart_status'', JDict [(''passed'', JBool False)])])])"
proof -
  let ?d = "JDict [(''smart_status'', JDict [(''passed'', JBool False)])]"
  have a: "truthy (payload_get [(''json'', ?d), (''raw'', JStr ''PASSED'')] ''json'')"
    by (simp add: payload_get_def)
  have b: "payload_get [(''json'', ?d)] ''json'' =
           payload_get [(''json'', ?d), (''raw'', JStr ''PASSED'')] ''json''"
    by (simp add: payload_get_def)
  from a b health_independent_of_transcript[OF a b,
      where dev = "''/dev/sda''" and upper = ascii_upper]
  show ?thesis by blast
qed

text \<open>
  C3: for every device whose lower-case form contains "nvme" and for every document,
  \<^verbatim>\<open>None\<close> included and of any shape, \<^verbatim>\<open>_detect_disk_type\<close> returns NVME and raises nothing.
\<close>

theorem detect_disk_type_nvme_device:
  "sublist ''nvme'' (str_lower dev) \<Longrightarrow> detect_disk_type dev jd = Inr NVME"
  by (simp add: detect_disk_type_def)

text \<open>C3 at a device written with capitals and a document that holds an ATA block.\<close>

theorem detect_disk_type_nvme_device_witness:
  "sublist ''nvme'' (str_lower ''/dev/NVMe0n1'') \<and>
   detect_disk_type ''/dev/NVMe0n1'' (JDict [(''ata_smart_attributes'', JDict [])]) = Inr NVME"
proof -
  have h: "sublist ''nvme'' (str_lower ''/dev/NVMe0n1'')"
    by code_simp
  from h detect_disk_type_nvme_device[OF h] show ?thesis by blast
qed

text \<open>
  C6: for every payload with no document, and whatever \<^verbatim>\<open>str.upper()\<close> is, the health
  that \<^verbatim>\<open>synthesize_report\<close> gives is
  UNKNOWN when the transcript is absent or empty; otherwise PASSED when the upper-cased
  transcript contains "PASSED" or "OK", else FAILED when it contains "FAILED", else
  UNKNOWN. The test for PASSED runs first, so a transcript with both a PASSED-class and a
  FAILED-class substring is PASSED.
\<close>

theorem health_from_transcript_fallback:
  assumes "payload_get p ''json'' = JNull"
  shows "(payload_get p ''raw'' = JNull \<longrightarrow>
            map_sum id health (synthesize_report upper dev p) = Inr ''UNKNOWN'') \<and>
         (payload_get p ''raw'' = JStr [] \<longrightarrow>
            map_sum id health (synthesize_report upper dev p) = Inr ''UNKNOWN'') \<and>
         (payload_get p ''raw'' = JStr s \<and> s \<noteq> [] \<longrightarrow>
            map_sum id health (synthesize_report upper dev p) =
              Inr (if sublist ''PASSED'' (upper s) \<or> sublist ''OK'' (upper s)
                   then ''PASSED''
                   else if sublist ''FAILED'' (upper s) then ''FAILED''
                   else ''UNKNOWN'')) \<and>
         (payload_get p ''raw'' = JStr s \<and> s \<noteq> [] \<and>
          (sublist ''PASSED'' (upper s) \<or> sublist ''OK'' (upper s)) \<and>
          sublist ''FAILED'' (upper s) \<longrightarrow>
            map_sum id health (synthesize_report upper dev p) = Inr ''PASSED'')"
  using assms
  by (auto simp: synth_health detect_disk_type_def extract_attributes_def
      determine_health_from_raw_def)

text \<open>C6 at a transcript, with no document, that says passed in small letters and FAILED.\<close>

theorem health_from_transcript_fallback_witness:
  "payload_get [(''raw'', JStr ''Result: passed, earlier FAILED'')] ''json'' = JNull \<and>
   payload_get [(''raw'', JStr ''Result: passed, earlier FAILED'')] ''raw'' =
     JStr ''Result: passed, earlier FAILED'' \<and>
   sublist ''PASSED'' (ascii_upper ''Result: passed, earlier FAILED'') \<and>
   sublist ''FAILED'' (ascii_upper ''Result: passed, earlier FAILED'') \<and>
   map_sum id health
     (synthesize_report ascii_upper ''/dev/sda'' [(''raw'', JStr ''Result: passed, earlier FAILED'')]) =
     Inr ''PASSED''"
proof -
  let ?p = "[(''raw'', JStr ''Result: passed, earlier FAILED'')]"
  have a: "payload_get ?p ''json'' = JNull" by (simp add: payload_get_def)
  have b: "payload_get ?p ''raw'' = JStr ''Result: passed, earlier FAILED''"
    by (simp add: payload_get_def)
  have c: "sublist ''PASSED'' (ascii_upper ''Result: passed, earlier FAILED'')" by code_simp
  have d: "sublist ''FAILED'' (ascii_upper ''Result: passed, earlier FAILED'')" by code_simp
  have ne: "''Result: passed, earlier FAILED'' \<noteq> []" by simp
  from health_from_transcript_fallback[OF a,
      where s = "''Result: passed, earlier FAILED''" and dev = "''/dev/sda''"
        and upper = ascii_upper] a b c d ne
  show ?thesis by blast
qed

text \<open>
  C9: in every report that \<^verbatim>\<open>synthesize_report\<close> returns for the NVME family, each
  attribute has the identifier "-", worst and threshold equal to the empty string, and a
  raw value equal to its current value. In every report it returns for the SATA\_ATA
  family, the attributes are, in order, the rows of the table of the document, each row a
  dict and each of the six fields the value the row holds under that key, or the empty
  string when the row omits the key. Parsing a list of dict rows raises nothing, whichever
  keys the rows omit.
\<close>

theorem attribute_fields_by_family:
  "(synthesize_report upper dev p = Inr r \<and> disk_type r = NVME \<longrightarrow>
      (\<forall>a \<in> set (attributes r).
         attr_id a = JStr ''-'' \<and> attr_worst a = JStr '''' \<and> attr_thresh a = JStr '''' \<and>
         attr_raw a = attr_value a)) \<and>
   (synthesize_report upper dev p = Inr r \<and> disk_type r = SATA_ATA \<longrightarrow>
      (\<exists>tbl rows. ata_table_of (payload_get p ''json'') = Inr tbl \<and>
         py_iter tbl = Inr (map JDict rows) \<and> attributes r = map ata_attr rows)) \<and>
   parse_ata_attributes (JList (map JDict rows')) = Inr (map ata_attr rows')"
proof (intro conjI impI)
  assume a: "synthesize_report upper dev p = Inr r \<and> disk_type r = NVME"
  with synth_Inr_parts(2)[of upper dev p r]
  have "extract_attributes NVME (payload_get p ''json'') = Inr (attributes r)" by simp
  from extract_nvme[OF this] obtain kvs where "attributes r = map nvme_attr kvs" ..
  then show "\<forall>a \<in> set (attributes r).
         attr_id a = JStr ''-'' \<and> attr_worst a = JStr '''' \<and> attr_thresh a = JStr '''' \<and>
         attr_raw a = attr_value a"
    using nvme_attr_fields by auto
next
  assume a: "synthesize_report upper dev p = Inr r \<and> disk_type r = SATA_ATA"
  with synth_Inr_parts[of upper dev p r]
  have d: "detect_disk_type dev (payload_get p ''json'') = Inr SATA_ATA"
    and e: "extract_attributes SATA_ATA (payload_get p ''json'') = Inr (attributes r)"
    by simp_all
  from extract_sata[OF e detect_SATA_truthy[OF d]]
  show "\<exists>tbl rows. ata_table_of (payload_get p ''json'') = Inr tbl \<and>
         py_iter tbl = Inr (map JDict rows) \<and> attributes r = map ata_attr rows" .
next
  show "parse_ata_attributes (JList (map JDict rows')) = Inr (map ata_attr rows')"
    by (simp add: parse_ata_attributes_def map_err_ata_dicts)
qed

text \<open>
  C9 at an NVMe report with one attribute, and at a SATA report whose only row omits the
  keys value, worst, thresh and raw.
\<close>

theorem attribute_fields_by_family_witness:
  "synthesize_report ascii_upper ''/dev/nvme0n1''
     [(''json'', JDict [(''nvme_smart_health_information_log'',
                         JDict [(''temperature'', JInt 33)])])]
     = Inr \<lparr>device = ''/dev/nvme0n1'', health = ''UNKNOWN'', disk_type = NVME,
             attributes = [\<lparr>attr_id = JStr ''-'', attr_name = JStr ''temperature'',
                            attr_value = JInt 33, attr_worst = JStr '''',
                            attr_thresh = JStr '''', attr_raw = JInt 33\<rparr>],
             raw = JNull,
             json_data = JDict [(''nvme_smart_health_information_log'',
                                 JDict [(''temperature'', JInt 33)])]\<rparr> \<and>
   list_all
     (\<lambda>a. attr_id a = JStr ''-'' \<and> attr_worst a = JStr '''' \<and> attr_thresh a = JStr '''' \<and>
          attr_raw a = attr_value a)
     [\<lparr>attr_id = JStr ''-'', attr_name = JStr ''temperature'',
       attr_value = JInt 33, attr_worst = JStr '''',
       attr_thresh = JStr '''', attr_raw = JInt 33\<rparr>] \<and>
   synthesize_report ascii_upper ''/dev/sda''
     [(''json'', JDict [(''ata_smart_attributes'',
         JDict [(''table'', JList [JDict [(''id'', JInt 5), (''name'', JStr ''Test'')]])])])]
     = Inr \<lparr>device = ''/dev/sda'', health = ''UNKNOWN'', disk_type = SATA_ATA,
             attributes = [\<lparr>attr_id = JInt 5, attr_name = JStr ''Test'',
                            attr_value = JStr '''', attr_worst = JStr '''',
                            attr_thresh = JStr '''', attr_raw = JStr ''''\<rparr>],
             raw = JNull,
             json_data = JDict [(''ata_smart_attributes'',
               JDict [(''table'',
                       JList [JDict [(''id'', JInt 5), (''name'', JStr ''Test'')]])])]\<rparr> \<and>
   (\<exists>rows. [\<lparr>attr_id = JInt 5, attr_name = JStr ''Test'',
               attr_value = JStr '''', attr_worst = JStr '''',
               attr_thresh = JStr '''', attr_raw = JStr ''''\<rparr>] = map ata_attr rows)"
proof -
  let ?p1 = "[(''json'', JDict [(''nvme_smart_health_information_log'',
                         JDict [(''temperature'', JInt 33)])])]"
  let ?a1 = "\<lparr>attr_id = JStr ''-'', attr_name = JStr ''temperature'',
              attr_value = JInt 33, attr_worst = JStr '''',
              attr_thresh = JStr '''', attr_raw = JInt 33\<rparr>"
  let ?r1 = "\<lparr>device = ''/dev/nvme0n1'', health = ''UNKNOWN'', disk_type = NVME,
              attributes = [?a1], raw = JNull,
              json_data = JDict [(''nvme_smart_health_information_log'',
                                  JDict [(''temperature'', JInt 33)])]\<rparr>"
  let ?p2 = "[(''json'', JDict [(''ata_smart_attributes'',
         JDict [(''table'', JList [JDict [(''id'', JInt 5), (''name'', JStr ''Test'')]])])])]"
  let ?a2 = "\<lparr>attr_id = JInt 5, attr_name = JStr ''Test'',
              attr_value = JStr '''', attr_worst = JStr '''',
              attr_thresh = JStr '''', attr_raw = JStr ''''\<rparr>"
  let ?r2 = "\<lparr>device = ''/dev/sda'', health = ''UNKNOWN'', disk_type = SATA_ATA,
              attributes = [?a2], raw = JNull,
              json_data = JDict [(''ata_smart_attributes'',
                JDict [(''table'',
                        JList [JDict [(''id'', JInt 5), (''name'', JStr ''Test'')]])])]\<rparr>"
  have e1: "synthesize_report ascii_upper ''/dev/nvme0n1'' ?p1 = Inr ?r1"
    by (simp add: synthesize_report_def payload_get_def detect_disk_type_def
        determine_health_from_json_def extract_attributes_def parse_nvme_attributes_def
        nvme_attr_def str_lower_def lower_char_def sublist_code)
  have e2: "synthesize_report ascii_upper ''/dev/sda'' ?p2 = Inr ?r2"
    by (simp add: synthesize_report_def payload_get_def detect_disk_type_def
        determine_health_from_json_def extract_attributes_def ata_table_of_def
        parse_ata_attributes_def ata_row_def str_lower_def lower_char_def sublist_code)
  from attribute_fields_by_family[of ascii_upper "''/dev/nvme0n1''" ?p1 ?r1] e1
  have "\<forall>a \<in> set (attributes ?r1).
      attr_id a = JStr ''-'' \<and> attr_worst a = JStr '''' \<and> attr_thresh a = JStr '''' \<and>
      attr_raw a = attr_value a"
    by simp
  then have n: "list_all
     (\<lambda>a. attr_id a = JStr ''-'' \<and> attr_worst a = JStr '''' \<and> attr_thresh a = JStr '''' \<and>
          attr_raw a = attr_value a) [?a1]"
    by (simp add: list_all_iff)
  from attribute_fields_by_family[of ascii_upper "''/dev/sda''" ?p2 ?r2 "[]"] e2
  have "\<exists>tbl rows. ata_table_of (payload_get ?p2 ''json'') = Inr tbl \<and>
         py_iter tbl = Inr (map JDict rows) \<and> attributes ?r2 = map ata_attr rows"
    by simp
  then obtain rows where "attributes ?r2 = map ata_attr rows" by blast
  then have s: "\<exists>rows. [?a2] = map ata_attr rows"
    by auto
  from e1 n e2 s show ?thesis by blast
qed

text \<open>
  C10: for every device whose lower-case form does not contain "nvme" and every payload
  whose document is the empty dict, \<^verbatim>\<open>synthesize_report\<close> raises exactly when the transcript
  fallback raises on the transcript, and otherwise returns the report with family UNKNOWN,
  no attribute and the health that the transcript fallback gives; the outcome is that of
  the payload with the same transcript and no document, but for the document kept in the
  report.
\<close>

theorem empty_document_as_absent:
  assumes "\<not> sublist ''nvme'' (str_lower dev)"
      and "payload_get p ''json'' = JDict []"
  shows "synthesize_report upper dev p =
           map_sum id (\<lambda>h. \<lparr>device = dev, health = h, disk_type = UNKNOWN, attributes = [],
                             raw = payload_get p ''raw'', json_data = JDict []\<rparr>)
             (determine_health_from_raw upper (payload_get p ''raw'')) \<and>
         (payload_get p' ''json'' = JNull \<and> payload_get p' ''raw'' = payload_get p ''raw'' \<longrightarrow>
            synthesize_report upper dev p =
              map_sum id (\<lambda>r. r\<lparr>json_data := JDict []\<rparr>) (synthesize_report upper dev p'))"
proof (intro conjI impI)
  from assms synth_falsy_document[of dev p upper]
  show first: "synthesize_report upper dev p =
           map_sum id (\<lambda>h. \<lparr>device = dev, health = h, disk_type = UNKNOWN, attributes = [],
                             raw = payload_get p ''raw'', json_data = JDict []\<rparr>)
             (determine_health_from_raw upper (payload_get p ''raw''))"
    by simp
  assume a: "payload_get p' ''json'' = JNull \<and> payload_get p' ''raw'' = payload_get p ''raw''"
  with assms(1) synth_falsy_document[of dev p' upper]
  have "synthesize_report upper dev p' =
           map_sum id (\<lambda>h. \<lparr>device = dev, health = h, disk_type = UNKNOWN, attributes = [],
                             raw = payload_get p ''raw'', json_data = JNull\<rparr>)
             (determine_health_from_raw upper (payload_get p ''raw''))"
    by simp
  with first show "synthesize_report upper dev p =
              map_sum id (\<lambda>r. r\<lparr>json_data := JDict []\<rparr>) (synthesize_report upper dev p')"
    by (cases "determine_health_from_raw upper (payload_get p ''raw'')") simp_all
qed

text \<open>C10 at the device /dev/sda and a transcript that says OK.\<close>

theorem empty_document_as_absent_witness:
  "\<not> sublist ''nvme'' (str_lower ''/dev/sda'') \<and>
   payload_get [(''raw'', JStr ''SMART Health Status: OK''), (''json'', JDict [])] ''json''
     = JDict [] \<and>
   payload_get [(''raw'', JStr ''SMART Health Status: OK'')] ''json'' = JNull \<and>
   synthesize_report ascii_upper ''/dev/sda'' [(''raw'', JStr ''SMART Health Status: OK''), (''json'', JDict [])]
     = Inr \<lparr>device = ''/dev/sda'', health = ''PASSED'', disk_type = UNKNOWN, attributes = [],
             raw = JStr ''SMART Health Status: OK'', json_data = JDict []\<rparr> \<and>
   synthesize_report ascii_upper ''/dev/sda'' [(''raw'', JStr ''SMART Health Status: OK''), (''json'', JDict [])]
     = map_sum id (\<lambda>r. r\<lparr>json_data := JDict []\<rparr>)
         (synthesize_report ascii_upper ''/dev/sda'' [(''raw'', JStr ''SMART Health Status: OK'')])"
proof -
  let ?p = "[(''raw'', JStr ''SMART Health Status: OK''), (''json'', JDict [])]"
  let ?p' = "[(''raw'', JStr ''SMART Health Status: OK'')]"
  have a: "\<not> sublist ''nvme'' (str_lower ''/dev/sda'')" by code_simp
  have b: "payload_get ?p ''json'' = JDict []" by (simp add: payload_get_def)
  have c: "payload_get ?p' ''json'' = JNull" by (simp add: payload_get_def)
  have d: "payload_get ?p' ''raw'' = payload_get ?p ''raw''" by (simp add: payload_get_def)
  have e: "determine_health_from_raw ascii_upper (payload_get ?p ''raw'') = Inr ''PASSED''"
    by code_simp
  have f: "payload_get ?p ''raw'' = JStr ''SMART Health Status: OK''"
    by (simp add: payload_get_def)
  note t = empty_document_as_absent[OF a b, where p' = ?p' and upper = ascii_upper]
  from t e f have g1: "synthesize_report ascii_upper ''/dev/sda'' ?p
     = Inr \<lparr>device = ''/dev/sda'', health = ''PASSED'', disk_type = UNKNOWN, attributes = [],
             raw = JStr ''SMART Health Status: OK'', json_data = JDict []\<rparr>"
    by simp
  from t c d have g2: "synthesize_report ascii_upper ''/dev/sda'' ?p
     = map_sum id (\<lambda>r. r\<lparr>json_data := JDict []\<rparr>) (synthesize_report ascii_upper ''/dev/sda'' ?p')"
    by blast
  from a b c g1 g2 show ?thesis by blast
qed

section \<open>Performance sampling: the claims\<close>

text \<open>
  C4, as stated, fails: with an empty speed series the latency series is dropped and its
  three statistics are 0.0, whatever NumPy would compute on the series 1, 3.
\<close>

theorem compute_benchmark_stats_empty_speeds_drop_latency:
  "compute_benchmark_stats small_numpy [] [Finite 1, Finite 3] [Finite 50, Finite 100] =
     Inr \<lparr>read_speeds = [], access_times = [], positions = [],
          avg_read_speed = Finite 0, min_read_speed = Finite 0, max_read_speed = Finite 0,
          avg_access_time = Finite 0, min_access_time = Finite 0,
          max_access_time = Finite 0\<rparr>"
  by (simp add: compute_benchmark_stats_def)

text \<open>
  C4, amended: for every triple of series, of any lengths, \<^verbatim>\<open>compute_benchmark_stats\<close>
  returns a result and raises nothing. When the speed series is not empty, the three series
  are returned as given, the speed statistics are what \<^verbatim>\<open>np.mean\<close>, \<^verbatim>\<open>np.min\<close> and \<^verbatim>\<open>np.max\<close>
  give on the speed series, and the latency statistics are what they give on the latency
  series alone, or 0.0 each when the latency series is empty.
\<close>

theorem compute_benchmark_stats_per_series:
  "\<exists>r. compute_benchmark_stats np rs ats ps = Inr r \<and>
     (rs \<noteq> [] \<longrightarrow>
        read_speeds r = rs \<and> access_times r = ats \<and> positions r = ps \<and>
        avg_read_speed r = mean np rs \<and>
        min_read_speed r = amin np rs \<and>
        max_read_speed r = amax np rs \<and>
        (ats \<noteq> [] \<longrightarrow>
           avg_access_time r = mean np ats \<and>
           min_access_time r = amin np ats \<and>
           max_access_time r = amax np ats) \<and>
        (ats = [] \<longrightarrow>
           avg_access_time r = Finite 0 \<and> min_access_time r = Finite 0 \<and>
           max_access_time r = Finite 0))"
  by (simp add: compute_benchmark_stats_def np_mean_def np_min_def np_max_def)

text \<open>
  The amended C4 at series of lengths 2, 1 and 3, and at a speed series of one sample with
  an empty latency series.
\<close>

theorem compute_benchmark_stats_per_series_witness:
  "[Finite 100, Finite 95] \<noteq> [] \<and> [Finite 1] \<noteq> [] \<and>
   (\<exists>r. compute_benchmark_stats small_numpy [Finite 100, Finite 95] [Finite 1]
           [Finite 0, Finite 50, Finite 100] = Inr r \<and>
        avg_read_speed r = Finite (195 / 2) \<and> min_read_speed r = Finite 95 \<and>
        max_read_speed r = Finite 100 \<and> avg_access_time r = Finite 1 \<and>
        min_access_time r = Finite 1 \<and> max_access_time r = Finite 1 \<and>
        access_times r = [Finite 1] \<and> positions r = [Finite 0, Finite 50, Finite 100]) \<and>
   (\<exists>r. compute_benchmark_stats small_numpy [Finite 50] [] [Finite 0] = Inr r \<and>
        avg_read_speed r = Finite 50 \<and> avg_access_time r = Finite 0 \<and>
        min_access_time r = Finite 0 \<and> max_access_time r = Finite 0)"
proof -
  from compute_benchmark_stats_per_series[of small_numpy "[Finite 100, Finite 95]"
      "[Finite 1]" "[Finite 0, Finite 50, Finite 100]"]
  have a: "\<exists>r. compute_benchmark_stats small_numpy [Finite 100, Finite 95] [Finite 1]
           [Finite 0, Finite 50, Finite 100] = Inr r \<and>
        avg_read_speed r = Finite (195 / 2) \<and> min_read_speed r = Finite 95 \<and>
        max_read_speed r = Finite 100 \<and> avg_access_time r = Finite 1 \<and>
        min_access_time r = Finite 1 \<and> max_access_time r = Finite 1 \<and>
        access_times r = [Finite 1] \<and> positions r = [Finite 0, Finite 50, Finite 100]"
    by (auto simp: small_numpy_def round64_195 round64_195_halves)
  from compute_benchmark_stats_per_series[of small_numpy "[Finite 50]" "[]" "[Finite 0]"]
  have b: "\<exists>r. compute_benchmark_stats small_numpy [Finite 50] [] [Finite 0] = Inr r \<and>
        avg_read_speed r = Finite 50 \<and> avg_access_time r = Finite 0 \<and>
        min_access_time r = Finite 0 \<and> max_access_time r = Finite 0"
    by (auto simp: small_numpy_def)
  from a b show ?thesis by simp
qed

text \<open>
  C5: aggregating three empty series returns the summary whose six scalars are the number
  0.0, none of them NaN, and whose three sequences are empty; nothing is raised, and NumPy
  is not called.
\<close>

theorem compute_benchmark_stats_zero_value:
  "compute_benchmark_stats np [] [] [] =
     Inr \<lparr>read_speeds = [], access_times = [], positions = [],
          avg_read_speed = Finite 0, min_read_speed = Finite 0, max_read_speed = Finite 0,
          avg_access_time = Finite 0, min_access_time = Finite 0,
          max_access_time = Finite 0\<rparr>"
  by (simp add: compute_benchmark_stats_def)

text \<open>
  C7, as stated, fails: no float is returned for every position and total size. Position
  10 ^ 400 with total size 1 raises OverflowError, the quotient being too large for a float.
\<close>

theorem calculate_position_percentage_overflow:
  "calculate_position_percentage (10 ^ 400) 1 = Inl OverflowError"
  using round64_overflow[of "10 ^ 400"]
  by (simp add: calculate_position_percentage_def int_truediv_def)

text \<open>
  C7, amended: for every position and total size, the position percentage is 0.0 when the
  total size is zero or negative, and no division is performed. When the total size is
  positive, the quotient position / total size is rounded to a float, and OverflowError is
  raised when it is too large for one; otherwise the result is the product of that float
  and 100, rounded to a float, the infinity when it overflows. ZeroDivisionError is never
  raised. The value is not clamped: a position equal to a positive total size gives exactly
  100.0, and position 1500 with total size 1000 gives exactly 150.0.
\<close>

theorem calculate_position_percentage_not_clamped:
  "(total_size \<le> 0 \<longrightarrow> calculate_position_percentage position total_size = Inr (Finite 0)) \<and>
   (0 < total_size \<longrightarrow>
      calculate_position_percentage position total_size =
        (case round64 (of_int position / of_int total_size) of
           Finite q \<Rightarrow> Inr (round64 (q * 100))
         | PosInf \<Rightarrow> Inl OverflowError
         | NegInf \<Rightarrow> Inl OverflowError
         | NaN \<Rightarrow> Inl OverflowError)) \<and>
   (0 < total_size \<longrightarrow> calculate_position_percentage total_size total_size = Inr (Finite 100)) \<and>
   calculate_position_percentage 1500 1000 = Inr (Finite 150)"
proof (intro conjI impI)
  assume "total_size \<le> 0"
  then show "calculate_position_percentage position total_size = Inr (Finite 0)"
    by (simp add: calculate_position_percentage_def)
next
  assume "0 < total_size"
  then show "calculate_position_percentage position total_size =
        (case round64 (of_int position / of_int total_size) of
           Finite q \<Rightarrow> Inr (round64 (q * 100))
         | PosInf \<Rightarrow> Inl OverflowError
         | NegInf \<Rightarrow> Inl OverflowError
         | NaN \<Rightarrow> Inl OverflowError)"
    by (simp add: calculate_position_percentage_def int_truediv_cases split: pyfloat.splits)
next
  assume "0 < total_size"
  then show "calculate_position_percentage total_size total_size = Inr (Finite 100)"
    by (simp add: calculate_position_percentage_def int_truediv_cases round64_1 round64_100)
next
  have "real_of_int 1500 / real_of_int 1000 = 3 / 2" by simp
  then show "calculate_position_percentage 1500 1000 = Inr (Finite 150)"
    by (simp add: calculate_position_percentage_def int_truediv_cases
        round64_three_halves round64_150)
qed

text \<open>
  The amended C7 at position 250 of 1000, at a total size of -1000, at position 4096 of
  4096, and at position 7 of 100, where both roundings show: the result is
  7881299347898369 / 2 ^ 50, the float next above 7.
\<close>

theorem calculate_position_percentage_not_clamped_witness:
  "(0::int) < 1000 \<and> calculate_position_percentage 250 1000 = Inr (Finite 25) \<and>
   (- 1000::int) \<le> 0 \<and> calculate_position_percentage 100 (- 1000) = Inr (Finite 0) \<and>
   (0::int) < 4096 \<and> calculate_position_percentage 4096 4096 = Inr (Finite 100) \<and>
   (0::int) < 100 \<and>
   calculate_position_percentage 7 100 = Inr (Finite (7881299347898369 / 1125899906842624))"
proof -
  have q: "real_of_int 250 / real_of_int 1000 = 1 / 4" by simp
  from calculate_position_percentage_not_clamped[of 1000 250]
  have a: "calculate_position_percentage 250 1000 = Inr (Finite 25)"
    by (simp add: q round64_quarter round64_25)
  from calculate_position_percentage_not_clamped[of "- 1000" 100]
  have b: "calculate_position_percentage 100 (- 1000) = Inr (Finite 0)" by simp
  from calculate_position_percentage_not_clamped[of 4096 4096]
  have c: "calculate_position_percentage 4096 4096 = Inr (Finite 100)"
    by (simp add: round64_1 round64_100)
  from calculate_position_percentage_not_clamped[of 100 7]
  have d: "calculate_position_percentage 7 100 =
             Inr (Finite (7881299347898369 / 1125899906842624))"
    by (simp add: round64_7_hundredths round64_7_hundredths_times_100)
  from a b c d show ?thesis by simp
qed




end
